theory Spec2Isabelle
  imports Main "HOL-Library.Word"
begin

section \<open>JavaScript values\<close>

text \<open>
  A JavaScript string is a sequence of 16-bit code units. String literals of the source
  are ASCII and are written through \<open>ascii\<close>.
\<close>

type_synonym js_string = "16 word list"

definition ascii :: "string \<Rightarrow> js_string" where
  "ascii s = map of_char s"

text \<open>
  The code units that \<open>String.prototype.trim\<close> strips: ECMAScript's WhiteSpace
  (TAB, VT, FF, ZWNBSP and the Unicode space separators) and LineTerminator
  (LF, CR, LS, PS).
\<close>

definition js_whitespace :: "16 word \<Rightarrow> bool" where
  "js_whitespace c \<longleftrightarrow>
     c = 0x0009 \<or> c = 0x000A \<or> c = 0x000B \<or> c = 0x000C \<or> c = 0x000D \<or>
     c = 0x0020 \<or> c = 0x00A0 \<or> c = 0x1680 \<or> (0x2000 \<le> c \<and> c \<le> 0x200A) \<or>
     c = 0x2028 \<or> c = 0x2029 \<or> c = 0x202F \<or> c = 0x205F \<or> c = 0x3000 \<or>
     c = 0xFEFF"

definition trim :: "js_string \<Rightarrow> js_string" where
  "trim s = rev (dropWhile js_whitespace (rev (dropWhile js_whitespace s)))"

text \<open>Truthiness of a string value: only the empty string is falsy.\<close>

definition truthy :: "js_string \<Rightarrow> bool" where
  "truthy s \<longleftrightarrow> s \<noteq> []"

text \<open>The operator \<open>a ?? b\<close> on a value that is a string or null/undefined (\<open>None\<close>).\<close>

definition nullish_or :: "'a option \<Rightarrow> 'a option \<Rightarrow> 'a option" where
  "nullish_or a b = (case a of Some v \<Rightarrow> Some v | None \<Rightarrow> b)"

text \<open>
  A thrown value: an error object with its name, its message and its \<open>cause\<close>
  property (\<open>None\<close> when the object has none).
\<close>

datatype js_error =
  JsError (err_name: js_string) (err_message: js_string) (err_cause: "js_error option")

text \<open>Sequencing of steps that may throw: the first throw ends the sequence.\<close>

definition js_bind :: "js_error + 'a \<Rightarrow> ('a \<Rightarrow> js_error + 'b) \<Rightarrow> js_error + 'b" where
  "js_bind r f = (case r of Inl e \<Rightarrow> Inl e | Inr v \<Rightarrow> f v)"

definition startsWith :: "js_string \<Rightarrow> js_string \<Rightarrow> bool" where
  "startsWith s p \<longleftrightarrow> take (length p) s = p"


section \<open>The chat state hook (\<open>useAgent\<close>)\<close>

datatype sender = User | Agent

record message =
  "text" :: js_string
  sender :: sender

text \<open>
  \<open>AgentResponse\<close>, the declared type of the body of \<open>POST /api/agent\<close>: two optional
  string fields. \<open>None\<close> stands for an absent (or null) field.
\<close>

record AgentResponse =
  response :: "js_string option"
  error :: "js_string option"

text \<open>
  What the network does with one request: \<open>fetch\<close> rejects, or it resolves to a
  response whose \<open>json()\<close> rejects or resolves to the body.
\<close>

type_synonym http_response = "js_error + AgentResponse"
type_synonym fetch = "js_string \<Rightarrow> js_error + http_response"

text \<open>
  \<open>messageAgent\<close>: the whole body is inside \<open>try\<close>, and the handler returns null.
  (A body that is JSON but no object of the declared type, such as \<open>null\<close>, throws at
  the property access and ends in the same handler as a body that is no JSON.)
\<close>

definition messageAgent_try :: "fetch \<Rightarrow> js_string \<Rightarrow> js_error + js_string option" where
  "messageAgent_try fetch userMessage =
     (case fetch userMessage of
        Inl e \<Rightarrow> Inl e
      | Inr response_json \<Rightarrow>
          (case response_json of
             Inl e \<Rightarrow> Inl e
           | Inr data \<Rightarrow> Inr (nullish_or (response data) (nullish_or (AgentResponse.error data) None))))"

definition messageAgent :: "fetch \<Rightarrow> js_string \<Rightarrow> js_string option" where
  "messageAgent fetch userMessage =
     (case messageAgent_try fetch userMessage of
        Inl e \<Rightarrow> None
      | Inr r \<Rightarrow> r)"

record agent_state =
  messages :: "message list"
  isThinking :: bool

definition useAgent_init :: agent_state where
  "useAgent_init = \<lparr>messages = [], isThinking = False\<rparr>"

definition setMessages :: "(message list \<Rightarrow> message list) \<Rightarrow> agent_state \<Rightarrow> agent_state" where
  "setMessages f st = st\<lparr>messages := f (messages st)\<rparr>"

definition setIsThinking :: "bool \<Rightarrow> agent_state \<Rightarrow> agent_state" where
  "setIsThinking b st = st\<lparr>isThinking := b\<rparr>"

text \<open>
  \<open>sendMessage\<close> is asynchronous: it runs up to \<open>await messageAgent(input)\<close>, and
  continues when that promise resolves. \<open>sendMessage_start\<close> is the first part: it
  returns the hook's state at the moment the request is issued, and the request
  (\<open>None\<close> when the call returned without issuing one). \<open>sendMessage_resume\<close> is the
  continuation, run on the state the hook has when the promise resolves.
\<close>

definition sendMessage_start :: "js_string \<Rightarrow> agent_state \<Rightarrow> agent_state \<times> js_string option" where
  "sendMessage_start input st =
     (if \<not> truthy (trim input) then (st, None)
      else
        let st1 = setMessages (\<lambda>prev. prev @ [\<lparr>text = input, sender = User\<rparr>]) st;
            st2 = setIsThinking True st1
        in (st2, Some input))"

definition sendMessage_resume :: "js_string option \<Rightarrow> agent_state \<Rightarrow> agent_state" where
  "sendMessage_resume responseMessage st =
     (let st1 = (case responseMessage of
                   None \<Rightarrow> st
                 | Some r \<Rightarrow>
                     if truthy r
                     then setMessages (\<lambda>prev. prev @ [\<lparr>text = r, sender = Agent\<rparr>]) st
                     else st)
      in setIsThinking False st1)"

text \<open>A whole call of \<open>sendMessage\<close> during which nothing else touches the hook.\<close>

definition sendMessage :: "fetch \<Rightarrow> js_string \<Rightarrow> agent_state \<Rightarrow> agent_state" where
  "sendMessage fetch input st =
     (case sendMessage_start input st of
        (st1, None) \<Rightarrow> st1
      | (st1, Some request) \<Rightarrow> sendMessage_resume (messageAgent fetch request) st1)"


subsection \<open>The page's send handler (\<open>onSendMessage\<close>)\<close>

record page_state =
  input :: js_string
  agent :: agent_state

text \<open>
  \<open>onSendMessage\<close> up to its \<open>await sendMessage(message)\<close>; nothing follows the
  await. The handler reads \<open>input\<close> and \<open>isThinking\<close> as its render saw them: \<open>p\<close> is
  that input and hook state, taken to be the current one.
\<close>

definition onSendMessage_start :: "page_state \<Rightarrow> page_state \<times> js_string option" where
  "onSendMessage_start p =
     (if \<not> truthy (trim (input p)) \<or> isThinking (agent p) then (p, None)
      else
        let message = input p;
            p1 = p\<lparr>input := []\<rparr>
        in (case sendMessage_start message (agent p1) of
              (a, request) \<Rightarrow> (p1\<lparr>agent := a\<rparr>, request)))"


subsection \<open>Networks\<close>

text \<open>Networks used at concrete inputs.\<close>

definition fetch_resolves :: "AgentResponse \<Rightarrow> fetch" where
  "fetch_resolves body userMessage = Inr (Inr body)"

definition fetch_rejects :: "js_error \<Rightarrow> fetch" where
  "fetch_rejects e userMessage = Inl e"


section \<open>The wallet connection hook (\<open>useMetaMask\<close>)\<close>

record metamask_state =
  account :: "js_string option"
  isConnected :: bool
  isConnecting :: bool
  error :: "js_string option"

definition useMetaMask_init :: metamask_state where
  "useMetaMask_init = \<lparr>account = None, isConnected = False, isConnecting = False, error = None\<rparr>"

text \<open>The listener registered for \<open>accountsChanged\<close>.\<close>

definition accountsChanged :: "js_string list \<Rightarrow> metamask_state \<Rightarrow> metamask_state" where
  "accountsChanged accounts st =
     (if length accounts = 0
      then (st\<lparr>account := None\<rparr>)\<lparr>isConnected := False\<rparr>
      else (st\<lparr>account := Some (accounts ! 0)\<rparr>)\<lparr>isConnected := True\<rparr>)"

text \<open>
  The injected provider \<open>window.ethereum\<close>, as what its \<open>request\<close> does with each
  of the calls the hook makes: it rejects, or resolves to an account list (\<open>None\<close>
  for a null or undefined result; the results of the two network calls are not read).
\<close>

record native_currency =
  currency_name :: js_string
  symbol :: js_string
  decimals :: nat

record add_chain_params =
  chainId :: js_string
  chainName :: js_string
  nativeCurrency :: native_currency
  rpcUrls :: "js_string list"
  blockExplorerUrls :: "js_string list"

datatype rpc_request =
  Eth_accounts
| Eth_requestAccounts
| Wallet_addEthereumChain add_chain_params
| Wallet_switchEthereumChain js_string

type_synonym ethereum = "rpc_request \<Rightarrow> js_error + js_string list option"

definition flow_currency :: native_currency where
  "flow_currency = \<lparr>currency_name = ascii ''FLOW'', symbol = ascii ''FLOW'', decimals = 18\<rparr>"

definition flow_chain_params :: add_chain_params where
  "flow_chain_params =
     \<lparr>chainId = ascii ''0x221'',
      chainName = ascii ''Flow Testnet'',
      nativeCurrency = flow_currency,
      rpcUrls = [ascii ''https://testnet.evm.nodes.onflow.org''],
      blockExplorerUrls = [ascii ''https://testnet.flowscan.org'']\<rparr>"

text \<open>\<open>checkConnection\<close>, the probe run when the hook mounts.\<close>

definition checkConnection :: "ethereum option \<Rightarrow> metamask_state \<Rightarrow> metamask_state" where
  "checkConnection window_ethereum st =
     (case window_ethereum of
        None \<Rightarrow> st\<lparr>error := Some (ascii ''MetaMask is not installed'')\<rparr>
      | Some request \<Rightarrow>
          (case request Eth_accounts of
             Inl e \<Rightarrow> st\<lparr>error := Some (ascii ''Failed to check MetaMask connection'')\<rparr>
           | Inr accounts \<Rightarrow>
               (case accounts of
                  None \<Rightarrow> st
                | Some l \<Rightarrow>
                    if length l > 0
                    then (st\<lparr>account := Some (l ! 0)\<rparr>)\<lparr>isConnected := True\<rparr>
                    else st)))"

text \<open>
  \<open>connectMetaMask\<close>, run with no other event in between. \<open>None\<close> for the provider
  is \<open>isMetaMaskAvailable()\<close> being falsy. In the outer \<open>try\<close> only the account
  request can throw: the two network requests have handlers of their own.
\<close>

definition connectMetaMask :: "ethereum option \<Rightarrow> metamask_state \<Rightarrow> metamask_state" where
  "connectMetaMask window_ethereum st =
     (case window_ethereum of
        None \<Rightarrow> st\<lparr>error := Some (ascii ''MetaMask is not installed'')\<rparr>
      | Some request \<Rightarrow>
          let st1 = st\<lparr>isConnecting := True\<rparr>;
              st2 = st1\<lparr>error := None\<rparr>;
              st3 =
                (case request Eth_requestAccounts of
                   Inl e \<Rightarrow> st2\<lparr>error := Some (ascii ''Failed to connect to MetaMask'')\<rparr>
                 | Inr accounts \<Rightarrow>
                     let st_add =
                           (case request (Wallet_addEthereumChain flow_chain_params) of
                              Inl e \<Rightarrow> st2
                            | Inr r \<Rightarrow> st2);
                         st_switch =
                           (case request (Wallet_switchEthereumChain (ascii ''0x221'')) of
                              Inl switchError \<Rightarrow>
                                st_add\<lparr>error := Some (ascii ''Failed to switch to Flow testnet'')\<rparr>
                            | Inr r \<Rightarrow> st_add)
                     in (case accounts of
                           None \<Rightarrow> st_switch
                         | Some l \<Rightarrow>
                             if length l > 0
                             then (st_switch\<lparr>account := Some (l ! 0)\<rparr>)\<lparr>isConnected := True\<rparr>
                             else st_switch))
          in st3\<lparr>isConnecting := False\<rparr>)"

text \<open>A provider given by the outcome of each of the three calls of \<open>connectMetaMask\<close>.\<close>

fun wallet_of ::
  "js_error + js_string list option \<Rightarrow> js_error option \<Rightarrow> js_error option \<Rightarrow> ethereum" where
  "wallet_of accounts add switch Eth_accounts = accounts"
| "wallet_of accounts add switch Eth_requestAccounts = accounts"
| "wallet_of accounts add switch (Wallet_addEthereumChain ps) =
     (case add of Some e \<Rightarrow> Inl e | None \<Rightarrow> Inr None)"
| "wallet_of accounts add switch (Wallet_switchEthereumChain c) =
     (case switch of Some e \<Rightarrow> Inl e | None \<Rightarrow> Inr None)"


section \<open>The agent bootstrap (\<open>prepare-agentkit.ts\<close>)\<close>

subsection \<open>The custom action provider\<close>

record balance_result =
  balance :: js_string

text \<open>
  The parameter schema of an action: each property with its type and description, and
  the names of the required properties.
\<close>

record parameter_schema =
  schema_type :: js_string
  properties :: "(js_string \<times> js_string \<times> js_string) list"
  required :: "js_string list"

record action =
  description :: js_string
  parameters :: parameter_schema
  execute :: "js_string \<Rightarrow> js_error + balance_result"

record flow_action_provider =
  provider_name :: js_string
  actions :: "(js_string \<times> action) list"

text \<open>The body of \<open>execute\<close> inside its \<open>try\<close>; \<open>address0x\<close> is computed and not used.\<close>

definition getFlowBalance_try :: "js_string \<Rightarrow> js_error + balance_result" where
  "getFlowBalance_try address =
     (let address0x = (if startsWith address (ascii ''0x'') then address else ascii ''0x'' @ address)
      in Inr \<lparr>balance = ascii ''10.0''\<rparr>)"

text \<open>The handler logs and rethrows the same error.\<close>

definition getFlowBalance_execute :: "js_string \<Rightarrow> js_error + balance_result" where
  "getFlowBalance_execute address =
     (case getFlowBalance_try address of
        Inl e \<Rightarrow> Inl e
      | Inr r \<Rightarrow> Inr r)"

definition createFlowActionProvider :: flow_action_provider where
  "createFlowActionProvider =
     \<lparr>provider_name = ascii ''flow'',
      actions =
        [(ascii ''getFlowBalance'',
          \<lparr>description = ascii ''Get the FLOW token balance of an account'',
           parameters =
             \<lparr>schema_type = ascii ''object'',
              properties = [(ascii ''address'', ascii ''string'', ascii ''The Flow account address'')],
              required = [ascii ''address'']\<rparr>,
           execute = getFlowBalance_execute\<rparr>)]\<rparr>"


subsection \<open>Configuration and the world outside the file\<close>

text \<open>
  A parsed JSON value. Numbers are kept as integers: nothing below reads a number.
\<close>

datatype json =
  JNull
| JBool bool
| JNum int
| JStr js_string
| JArr "json list"
| JObj "(js_string \<times> json) list"

text \<open>
  Reading the property \<open>privateKey\<close> of a parsed value: a \<open>TypeError\<close> on null, the
  property (or undefined, \<open>None\<close>) on an object, undefined on anything else. An object
  is the list of its properties, each name once.
\<close>

definition type_error :: js_error where
  "type_error =
     JsError (ascii ''TypeError'') (ascii ''Cannot read properties of null (reading 'privateKey')'') None"

definition get_privateKey :: "json \<Rightarrow> js_error + json option" where
  "get_privateKey v =
     (case v of
        JNull \<Rightarrow> Inl type_error
      | JObj props \<Rightarrow> Inr (map_of props (ascii ''privateKey''))
      | _ \<Rightarrow> Inr None)"

record block_explorer =
  explorer_name :: js_string
  url :: js_string

record chain =
  chain_id :: nat
  chain_name :: js_string
  network :: js_string
  chain_nativeCurrency :: native_currency
  rpcUrls_default_http :: "js_string list"
  rpcUrls_public_http :: "js_string list"
  blockExplorers_default :: block_explorer
  testnet :: bool

definition flowTestnet :: chain where
  "flowTestnet =
     \<lparr>chain_id = 545,
      chain_name = ascii ''Flow Testnet'',
      network = ascii ''flow-testnet'',
      chain_nativeCurrency = flow_currency,
      rpcUrls_default_http = [ascii ''https://testnet.evm.nodes.onflow.org''],
      rpcUrls_public_http = [ascii ''https://testnet.evm.nodes.onflow.org''],
      blockExplorers_default =
        \<lparr>explorer_name = ascii ''Flowscan'', url = ascii ''https://testnet.flowscan.org''\<rparr>,
      testnet = True\<rparr>"

text \<open>
  What the process sees: whether \<open>window.ethereum\<close> is there (the test \<open>isClient\<close>), and
  the three environment variables (\<open>None\<close> when unset).
\<close>

record environment =
  window_ethereum :: bool
  PRIVATE_KEY :: "js_string option"
  CDP_API_KEY_NAME :: "js_string option"
  CDP_API_KEY_PRIVATE_KEY :: "js_string option"

text \<open>Truthiness of an environment variable: unset and empty are falsy.\<close>

definition truthy_opt :: "js_string option \<Rightarrow> bool" where
  "truthy_opt v = (case v of None \<Rightarrow> False | Some s \<Rightarrow> truthy s)"

datatype transport = Custom_window_ethereum | Http

record 'a client_config =
  config_account :: "'a option"
  config_chain :: chain
  config_transport :: transport

record cdp_config =
  apiKeyName :: "js_string option"
  apiKeyPrivateKey :: "js_string option"

datatype 'p action_provider = Library 'p | Flow flow_action_provider

text \<open>
  The functions of the JavaScript runtime, of viem and of AgentKit that the file calls.
  They are not code of this repository: each is a parameter, returning its result or
  the error it throws. The results are of types the model does not look into:
  \<open>'a\<close> an account, \<open>'c\<close> a wallet client, \<open>'w\<close> a wallet provider, \<open>'p\<close> an action
  provider of the library, \<open>'k\<close> the AgentKit instance. \<open>generatePrivateKey\<close> is the
  key the generator returns when it is called.
\<close>

record ('a, 'c, 'w, 'p, 'k) sdk =
  JSON_parse :: "js_string \<Rightarrow> js_error + json"
  JSON_stringify :: "json \<Rightarrow> js_string"
  generatePrivateKey :: js_string
  privateKeyToAccount :: "json option \<Rightarrow> js_error + 'a"
  createWalletClient :: "'a client_config \<Rightarrow> js_error + 'c"
  ViemWalletProvider :: "'c \<Rightarrow> js_error + 'w"
  walletActionProvider :: "js_error + 'p"
  erc20ActionProvider :: "js_error + 'p"
  cdpApiActionProvider :: "cdp_config \<Rightarrow> js_error + 'p"
  AgentKit_from :: "'w \<Rightarrow> 'p action_provider list \<Rightarrow> js_error + 'k"


subsection \<open>\<open>prepareAgentkitAndWalletProvider\<close>\<close>

text \<open>
  The file \<open>wallet_data.txt\<close> is its content, \<open>None\<close> when it does not exist;
  \<open>existsSync\<close>, \<open>readFileSync\<close> and \<open>writeFileSync\<close> read and replace it. Console
  output is left out.

  Lines 146 to 159, the resolution of the private key: the new content of the file,
  and the key or the error thrown.
\<close>

definition resolvePrivateKey ::
  "('a, 'c, 'w, 'p, 'k) sdk \<Rightarrow> environment \<Rightarrow> js_string option \<Rightarrow>
     js_string option \<times> (js_error + json option)" where
  "resolvePrivateKey sdk env file =
     (let privateKey = PRIVATE_KEY env in
      if \<not> truthy_opt privateKey then
        (case file of
           Some content \<Rightarrow>
             (file, js_bind (JSON_parse sdk content) get_privateKey)
         | None \<Rightarrow>
             let privateKey = generatePrivateKey sdk;
                 file' = Some (JSON_stringify sdk (JObj [(ascii ''privateKey'', JStr privateKey)]))
             in (file', Inr (Some (JStr privateKey))))
      else (file, Inr (map_option JStr privateKey)))"

text \<open>Lines 130 to 169: the wallet provider of the browser, or of the local key.\<close>

definition selectWalletProvider ::
  "('a, 'c, 'w, 'p, 'k) sdk \<Rightarrow> environment \<Rightarrow> js_string option \<Rightarrow>
     js_string option \<times> (js_error + 'w)" where
  "selectWalletProvider sdk env file =
     (let isClient = window_ethereum env in
      if isClient then
        (file,
         js_bind (createWalletClient sdk
                    \<lparr>config_account = None, config_chain = flowTestnet,
                     config_transport = Custom_window_ethereum\<rparr>)
           (\<lambda>client. ViemWalletProvider sdk client))
      else
        (case resolvePrivateKey sdk env file of
           (file', r) \<Rightarrow>
             (file',
              js_bind r (\<lambda>privateKey.
              js_bind (privateKeyToAccount sdk privateKey) (\<lambda>account.
              js_bind (createWalletClient sdk
                         \<lparr>config_account = Some account, config_chain = flowTestnet,
                          config_transport = Http\<rparr>) (\<lambda>client.
              ViemWalletProvider sdk client))))))"

text \<open>Lines 172 to 188: the action providers, in the order of the array.\<close>

definition assembleActionProviders ::
  "('a, 'c, 'w, 'p, 'k) sdk \<Rightarrow> environment \<Rightarrow> js_error + 'p action_provider list" where
  "assembleActionProviders sdk env =
     js_bind (walletActionProvider sdk) (\<lambda>wallet.
     js_bind (Inr createFlowActionProvider) (\<lambda>flow.
     js_bind (erc20ActionProvider sdk) (\<lambda>erc20.
       let actionProviders = [Library wallet, Flow flow, Library erc20];
           canUseCdpApi = (truthy_opt (CDP_API_KEY_NAME env) \<and> truthy_opt (CDP_API_KEY_PRIVATE_KEY env))
       in if canUseCdpApi
          then js_bind (cdpApiActionProvider sdk
                          \<lparr>apiKeyName = CDP_API_KEY_NAME env,
                           apiKeyPrivateKey = CDP_API_KEY_PRIVATE_KEY env\<rparr>)
                 (\<lambda>cdp. Inr (actionProviders @ [Library cdp]))
          else Inr actionProviders)))"

text \<open>The body of the \<open>try\<close>.\<close>

definition prepare_try ::
  "('a, 'c, 'w, 'p, 'k) sdk \<Rightarrow> environment \<Rightarrow> js_string option \<Rightarrow>
     js_string option \<times> (js_error + 'k \<times> 'w)" where
  "prepare_try sdk env file =
     (case selectWalletProvider sdk env file of
        (file', r) \<Rightarrow>
          (file',
           js_bind r (\<lambda>walletProvider.
           js_bind (assembleActionProviders sdk env) (\<lambda>actionProviders.
           js_bind (AgentKit_from sdk walletProvider actionProviders) (\<lambda>agentkit.
           Inr (agentkit, walletProvider))))))"

text \<open>The error the handler throws: \<open>new Error("Failed to initialize agent")\<close>.\<close>

definition initialization_error :: js_error where
  "initialization_error = JsError (ascii ''Error'') (ascii ''Failed to initialize agent'') None"

definition prepareAgentkitAndWalletProvider ::
  "('a, 'c, 'w, 'p, 'k) sdk \<Rightarrow> environment \<Rightarrow> js_string option \<Rightarrow>
     js_string option \<times> (js_error + 'k \<times> 'w)" where
  "prepareAgentkitAndWalletProvider sdk env file =
     (case prepare_try sdk env file of
        (file', Inl caught) \<Rightarrow> (file', Inl initialization_error)
      | (file', Inr result) \<Rightarrow> (file', Inr result))"


subsection \<open>A world for concrete inputs\<close>

text \<open>
  A JSON reader and writer that are right on key files: the writer prints an object
  with one string property \<open>{"name":"value"}\<close> (and \<open>null\<close> for anything else), the
  reader accepts \<open>{"privateKey":"value"}\<close> with no quote in the value and throws a
  \<open>SyntaxError\<close> on every other text.
\<close>

definition syntax_error :: js_error where
  "syntax_error = JsError (ascii ''SyntaxError'') (ascii ''Unexpected token'') None"

definition key_file_prefix :: js_string where
  "key_file_prefix = [0x7B, 0x22] @ ascii ''privateKey'' @ [0x22, 0x3A, 0x22]"

definition key_file_suffix :: js_string where
  "key_file_suffix = [0x22, 0x7D]"

definition stub_stringify :: "json \<Rightarrow> js_string" where
  "stub_stringify v =
     (case v of
        JObj [(n, JStr s)] \<Rightarrow> [0x7B, 0x22] @ n @ [0x22, 0x3A, 0x22] @ s @ key_file_suffix
      | _ \<Rightarrow> ascii ''null'')"

definition stub_parse :: "js_string \<Rightarrow> js_error + json" where
  "stub_parse s =
     (let n = length key_file_prefix;
          body = drop n s;
          m = length body - length key_file_suffix;
          v = take m body
      in if take n s = key_file_prefix \<and> drop m body = key_file_suffix \<and> 0x22 \<notin> set v
         then Inr (JObj [(ascii ''privateKey'', JStr v)])
         else Inl syntax_error)"

text \<open>
  A library in which every call succeeds and returns a record of what it was given,
  and one whose \<open>AgentKit.from\<close> throws.
\<close>

definition sdk_ok ::
  "(json option, (json option) client_config, (json option) client_config, js_string,
    (json option) client_config \<times> js_string action_provider list) sdk" where
  "sdk_ok =
     \<lparr>JSON_parse = stub_parse,
      JSON_stringify = stub_stringify,
      generatePrivateKey = ascii ''0x5eed'',
      privateKeyToAccount = Inr,
      createWalletClient = Inr,
      ViemWalletProvider = Inr,
      walletActionProvider = Inr (ascii ''wallet''),
      erc20ActionProvider = Inr (ascii ''erc20''),
      cdpApiActionProvider = (\<lambda>c. Inr (ascii ''cdp'')),
      AgentKit_from = (\<lambda>w ps. Inr (w, ps))\<rparr>"

definition network_error :: js_error where
  "network_error = JsError (ascii ''Error'') (ascii ''network unreachable'') None"

definition sdk_agentkit_fails ::
  "(json option, (json option) client_config, (json option) client_config, js_string,
    (json option) client_config \<times> js_string action_provider list) sdk" where
  "sdk_agentkit_fails = sdk_ok\<lparr>AgentKit_from := (\<lambda>w ps. Inl network_error)\<rparr>"

definition env_server :: environment where
  "env_server =
     \<lparr>window_ethereum = False, PRIVATE_KEY = None,
      CDP_API_KEY_NAME = None, CDP_API_KEY_PRIVATE_KEY = None\<rparr>"

definition env_with_key :: environment where
  "env_with_key = env_server\<lparr>PRIVATE_KEY := Some (ascii ''0xabc'')\<rparr>"

definition key_object :: "js_string \<Rightarrow> json" where
  "key_object k = JObj [(ascii ''privateKey'', JStr k)]"

definition state_in_flight :: agent_state where
  "state_in_flight = \<lparr>messages = [], isThinking = True\<rparr>"


section \<open>Properties of the chat state hook\<close>

lemmas hook_defs = sendMessage_def sendMessage_start_def sendMessage_resume_def setMessages_def
  setIsThinking_def truthy_def

lemmas network_defs = fetch_resolves_def fetch_rejects_def messageAgent_def messageAgent_try_def
  nullish_or_def

lemma all_dropWhile: "(\<forall>x \<in> set (dropWhile P s). P x) \<longleftrightarrow> (\<forall>x \<in> set s. P x)"
  by (induction s) auto

lemma trim_blank_iff: "trim s = [] \<longleftrightarrow> (\<forall>c \<in> set s. js_whitespace c)"
  by (simp add: trim_def dropWhile_eq_Nil_conv all_dropWhile)

lemma ascii_not_empty: "ascii (c # cs) \<noteq> []"
  by (simp add: ascii_def)

lemma ascii_hi: "ascii ''hi'' = [0x68, 0x69]"
  by (simp add: ascii_def)

lemma hi_not_blank: "truthy (trim (ascii ''hi''))"
  by (simp add: ascii_hi truthy_def trim_def js_whitespace_def)

lemma spaces_blank: "\<not> truthy (trim [0x20, 0x3000, 0x0A])"
  by (simp add: truthy_def trim_def js_whitespace_def)

lemma messageAgent_rejected: "messageAgent (fetch_rejects e) userMessage = None"
  by (simp add: network_defs)

lemma messageAgent_resolved:
  "messageAgent (fetch_resolves data) userMessage =
     (case response data of Some r \<Rightarrow> Some r | None \<Rightarrow> AgentResponse.error data)"
  by (simp add: network_defs split: option.splits)

text \<open>
  Claim C4, as the code has it. For a non-blank input, the part of \<open>sendMessage\<close> before
  the await appends exactly one user entry (and issues the request); the continuation
  appends exactly one agent entry when the response is a non-empty string, and nothing
  when it is null or the empty string. The earlier entries stay as a prefix.
\<close>

theorem sendMessage_history:
  "truthy (trim txt) \<Longrightarrow>
     sendMessage_start txt st =
       (st\<lparr>messages := messages st @ [\<lparr>text = txt, sender = User\<rparr>], isThinking := True\<rparr>, Some txt) \<and>
     messages (sendMessage_resume r st') =
       messages st' @
         (case r of None \<Rightarrow> [] | Some t \<Rightarrow> if t = [] then [] else [\<lparr>text = t, sender = Agent\<rparr>]) \<and>
     messages (sendMessage fetch txt st) =
       messages st @ [\<lparr>text = txt, sender = User\<rparr>] @
         (case messageAgent fetch txt of
            None \<Rightarrow> []
          | Some t \<Rightarrow> if t = [] then [] else [\<lparr>text = t, sender = Agent\<rparr>])"
  by (auto simp: hook_defs Let_def split: option.splits)

theorem sendMessage_history_witness:
  "truthy (trim (ascii ''hi'')) \<and>
   messages (sendMessage (fetch_resolves \<lparr>response = Some (ascii ''ok''), error = None\<rparr>)
               (ascii ''hi'') useAgent_init)
     = [\<lparr>text = ascii ''hi'', sender = User\<rparr>, \<lparr>text = ascii ''ok'', sender = Agent\<rparr>] \<and>
   messages (sendMessage (fetch_rejects network_error) (ascii ''hi'') useAgent_init)
     = [\<lparr>text = ascii ''hi'', sender = User\<rparr>]"
  using
    sendMessage_history [OF hi_not_blank, of useAgent_init None useAgent_init
      "fetch_resolves \<lparr>response = Some (ascii ''ok''), error = None\<rparr>"]
    sendMessage_history [OF hi_not_blank, of useAgent_init None useAgent_init
      "fetch_rejects network_error"]
  by (simp add: hi_not_blank messageAgent_rejected messageAgent_resolved useAgent_init_def
      ascii_not_empty)

text \<open>
  Claim C4 as stated fails: the server answers with the empty string as response,
  \<open>messageAgent\<close> returns it (a non-null response), and no agent entry is appended.
\<close>

theorem sendMessage_empty_response_counterexample:
  "messageAgent (fetch_resolves \<lparr>response = Some [], error = None\<rparr>) (ascii ''hi'') = Some [] \<and>
   messages (sendMessage (fetch_resolves \<lparr>response = Some [], error = None\<rparr>)
               (ascii ''hi'') useAgent_init)
     = [\<lparr>text = ascii ''hi'', sender = User\<rparr>]"
  by (simp add: hook_defs network_defs useAgent_init_def ascii_hi trim_def js_whitespace_def)





text \<open>
  Claim C6, as the code has it. \<open>sendMessage\<close> ignores a blank input: no history
  change, no request, no flag change. The test of the in-flight flag is in the page's
  \<open>onSendMessage\<close>, which returns without any change (and without calling
  \<open>sendMessage\<close>) when the input is blank or a request is in flight.
\<close>

theorem send_ignored:
  "(\<not> truthy (trim txt) \<longrightarrow>
      sendMessage_start txt st = (st, None) \<and> sendMessage fetch txt st = st) \<and>
   (\<not> truthy (trim (input p)) \<or> isThinking (agent p) \<longrightarrow> onSendMessage_start p = (p, None))"
  by (simp add: sendMessage_def sendMessage_start_def onSendMessage_start_def)

theorem send_ignored_witness:
  "\<not> truthy (trim [0x20, 0x3000, 0x0A]) \<and>
   sendMessage_start [0x20, 0x3000, 0x0A] state_in_flight = (state_in_flight, None) \<and>
   isThinking (agent \<lparr>input = ascii ''hi'', agent = state_in_flight\<rparr>) \<and>
   onSendMessage_start \<lparr>input = ascii ''hi'', agent = state_in_flight\<rparr>
     = (\<lparr>input = ascii ''hi'', agent = state_in_flight\<rparr>, None)"
  using send_ignored [of "[0x20, 0x3000, 0x0A]" state_in_flight "fetch_rejects network_error"
      "\<lparr>input = ascii ''hi'', agent = state_in_flight\<rparr>"]
  by (simp add: spaces_blank state_in_flight_def)

text \<open>
  Claim C6 as stated fails for \<open>sendMessage\<close> itself: called with a non-blank input
  while the flag is true, it appends the user entry and issues a request.
\<close>

theorem sendMessage_in_flight_counterexample:
  "isThinking state_in_flight \<and>
   sendMessage_start (ascii ''hi'') state_in_flight =
     (\<lparr>messages = [\<lparr>text = ascii ''hi'', sender = User\<rparr>], isThinking = True\<rparr>, Some (ascii ''hi'')) \<and>
   sendMessage_start (ascii ''hi'') state_in_flight \<noteq> (state_in_flight, None)"
  by (simp add: hook_defs state_in_flight_def ascii_hi trim_def js_whitespace_def)

text \<open>
  Claim C10, as the code has it. When the request of a non-blank input succeeds and the
  body has no response but a non-empty error string, that string is appended as an
  agent entry, after the user entry.
\<close>

theorem error_payload_as_agent_message:
  "truthy (trim txt) \<Longrightarrow> fetch txt = Inr (Inr data) \<Longrightarrow> response data = None \<Longrightarrow>
   AgentResponse.error data = Some e \<Longrightarrow> truthy e \<Longrightarrow>
     messages (sendMessage fetch txt st) =
       messages st @ [\<lparr>text = txt, sender = User\<rparr>, \<lparr>text = e, sender = Agent\<rparr>]"
  by (simp add: hook_defs messageAgent_def messageAgent_try_def nullish_or_def Let_def)

theorem error_payload_as_agent_message_witness:
  "truthy (trim (ascii ''hi'')) \<and> truthy (ascii ''no'') \<and>
   messages (sendMessage (fetch_resolves \<lparr>response = None, error = Some (ascii ''no'')\<rparr>)
               (ascii ''hi'') useAgent_init)
     = [\<lparr>text = ascii ''hi'', sender = User\<rparr>, \<lparr>text = ascii ''no'', sender = Agent\<rparr>]"
proof -
  have e: "truthy (ascii ''no'')" by (simp add: truthy_def ascii_not_empty)
  have f: "fetch_resolves \<lparr>response = None, error = Some (ascii ''no'')\<rparr> (ascii ''hi'')
             = Inr (Inr \<lparr>response = None, error = Some (ascii ''no'')\<rparr>)"
    by (simp add: fetch_resolves_def)
  show ?thesis
    using error_payload_as_agent_message
      [of "ascii ''hi''" "fetch_resolves \<lparr>response = None, error = Some (ascii ''no'')\<rparr>"
          "\<lparr>response = None, error = Some (ascii ''no'')\<rparr>" "ascii ''no''" useAgent_init]
    by (simp add: hi_not_blank e f useAgent_init_def)
qed

text \<open>
  Claim C10 as stated fails: a body with no response and the empty string as error
  contains an error string, and nothing is appended for it.
\<close>

theorem empty_error_payload_counterexample:
  "response \<lparr>response = None, error = Some []\<rparr> = None \<and>
   AgentResponse.error \<lparr>response = None, error = Some []\<rparr> = Some [] \<and>
   messages (sendMessage (fetch_resolves \<lparr>response = None, error = Some []\<rparr>)
               (ascii ''hi'') useAgent_init)
     = [\<lparr>text = ascii ''hi'', sender = User\<rparr>]"
  by (simp add: hook_defs network_defs useAgent_init_def ascii_hi trim_def js_whitespace_def)


section \<open>Properties of the wallet connection hook\<close>

text \<open>
  Claim C8. The \<open>accountsChanged\<close> listener, on any prior state: an empty account list
  unsets the account and clears \<open>isConnected\<close>; a non-empty list sets the first account
  and \<open>isConnected\<close>. The other two fields are left as they are.
\<close>

theorem accountsChanged_transitions:
  "accountsChanged [] st = st\<lparr>account := None, isConnected := False\<rparr> \<and>
   accountsChanged (a # rest) st = st\<lparr>account := Some a, isConnected := True\<rparr>"
  by (simp add: accountsChanged_def)

text \<open>
  Claim C9. In \<open>connectMetaMask\<close>, when the account request resolves to a non-empty
  list: if the switch request fails, the hook ends with the first account set,
  \<open>isConnected\<close> true and the error message of the failed switch; if only the add
  request fails, it ends connected with no error.
\<close>

theorem connectMetaMask_switch_failure:
  "request Eth_requestAccounts = Inr (Some (a # rest)) \<Longrightarrow>
     (request (Wallet_switchEthereumChain (ascii ''0x221'')) = Inl e \<longrightarrow>
        connectMetaMask (Some request) st =
          st\<lparr>account := Some a, isConnected := True, isConnecting := False,
             error := Some (ascii ''Failed to switch to Flow testnet'')\<rparr>) \<and>
     (request (Wallet_addEthereumChain flow_chain_params) = Inl e \<and>
      request (Wallet_switchEthereumChain (ascii ''0x221'')) = Inr r \<longrightarrow>
        connectMetaMask (Some request) st =
          st\<lparr>account := Some a, isConnected := True, isConnecting := False, error := None\<rparr>)"
  by (auto simp: connectMetaMask_def Let_def split: sum.splits)

theorem connectMetaMask_switch_failure_witness:
  "connectMetaMask (Some (wallet_of (Inr (Some [ascii ''0xabc''])) None (Some network_error)))
     useMetaMask_init =
     \<lparr>account = Some (ascii ''0xabc''), isConnected = True, isConnecting = False,
      error = Some (ascii ''Failed to switch to Flow testnet'')\<rparr> \<and>
   connectMetaMask (Some (wallet_of (Inr (Some [ascii ''0xabc''])) (Some network_error) None))
     useMetaMask_init =
     \<lparr>account = Some (ascii ''0xabc''), isConnected = True, isConnecting = False, error = None\<rparr>"
  using
    connectMetaMask_switch_failure
      [of "wallet_of (Inr (Some [ascii ''0xabc''])) None (Some network_error)" "ascii ''0xabc''" "[]"
          network_error useMetaMask_init None]
    connectMetaMask_switch_failure
      [of "wallet_of (Inr (Some [ascii ''0xabc''])) (Some network_error) None" "ascii ''0xabc''" "[]"
          network_error useMetaMask_init None]
  by (simp add: useMetaMask_init_def)


section \<open>Properties of the agent bootstrap\<close>

text \<open>
  Claim C2. For every address string, \<open>execute\<close> of the action \<open>getFlowBalance\<close> of the
  flow action provider returns the balance \<open>10.0\<close> and does not throw.
\<close>

theorem getFlowBalance_placeholder:
  "getFlowBalance_execute address = Inr \<lparr>balance = ascii ''10.0''\<rparr> \<and>
   map_option execute (map_of (actions createFlowActionProvider) (ascii ''getFlowBalance''))
     = Some getFlowBalance_execute"
  by (simp add: getFlowBalance_execute_def getFlowBalance_try_def createFlowActionProvider_def Let_def)

lemma js_bind_Inl: "js_bind (Inl e) f = Inl e"
  by (simp add: js_bind_def)

lemma js_bind_Inr: "js_bind (Inr v) f = f v"
  by (simp add: js_bind_def)

subsection \<open>Evaluation in the concrete world\<close>

lemma env_server_simps:
  "\<not> window_ethereum env_server" "\<not> truthy_opt (PRIVATE_KEY env_server)"
  "\<not> truthy_opt (CDP_API_KEY_NAME env_server)"
  by (simp_all add: env_server_def truthy_opt_def)

lemma env_with_key_simps:
  "\<not> window_ethereum env_with_key" "PRIVATE_KEY env_with_key = Some (ascii ''0xabc'')"
  by (simp_all add: env_with_key_def env_server_def)

lemma sdk_ok_simps:
  "JSON_parse sdk_ok = stub_parse" "JSON_stringify sdk_ok = stub_stringify"
  "generatePrivateKey sdk_ok = ascii ''0x5eed''"
  by (simp_all add: sdk_ok_def)

lemma stub_parse_not_json: "stub_parse (ascii ''not json'') = Inl syntax_error"
  by (simp add: stub_parse_def key_file_prefix_def key_file_suffix_def ascii_def)

lemma stub_stringify_key: "stub_stringify (key_object k) = key_file_prefix @ k @ key_file_suffix"
  by (simp add: stub_stringify_def key_object_def key_file_prefix_def ascii_def)

lemma stub_parse_key:
  "0x22 \<notin> set k \<Longrightarrow> stub_parse (key_file_prefix @ k @ key_file_suffix) = Inr (key_object k)"
  by (simp add: stub_parse_def key_object_def Let_def key_file_suffix_def)

lemma no_quote_5eed: "0x22 \<notin> set (ascii ''0x5eed'')"
  by (simp add: ascii_def)

lemma no_quote_f11e: "0x22 \<notin> set (ascii ''0xf11e'')"
  by (simp add: ascii_def)

lemma agentkit_fails_select:
  "snd (selectWalletProvider sdk_agentkit_fails env_server None) =
     Inr \<lparr>config_account = Some (Some (JStr (ascii ''0x5eed''))), config_chain = flowTestnet,
          config_transport = Http\<rparr>"
  by (simp add: selectWalletProvider_def resolvePrivateKey_def js_bind_def
      truthy_opt_def sdk_agentkit_fails_def sdk_ok_def env_server_def Let_def)

lemma agentkit_fails_assemble:
  "assembleActionProviders sdk_agentkit_fails env_server =
     Inr [Library (ascii ''wallet''), Flow createFlowActionProvider, Library (ascii ''erc20'')]"
  by (simp add: assembleActionProviders_def js_bind_def
      truthy_opt_def sdk_agentkit_fails_def sdk_ok_def env_server_def Let_def)

lemma agentkit_fails_from: "AgentKit_from sdk_agentkit_fails w ps = Inl network_error"
  by (simp add: sdk_agentkit_fails_def sdk_ok_def)

subsection \<open>Key resolution\<close>

text \<open>Outside the browser, the account is made from the key that the resolution returns.\<close>

lemma local_provider_uses_resolved_key:
  "\<not> window_ethereum env \<Longrightarrow> resolvePrivateKey sdk env file = (file', Inr key) \<Longrightarrow>
     selectWalletProvider sdk env file =
       (file',
        js_bind (privateKeyToAccount sdk key) (\<lambda>account.
        js_bind (createWalletClient sdk
                   \<lparr>config_account = Some account, config_chain = flowTestnet,
                    config_transport = Http\<rparr>) (\<lambda>client.
        ViemWalletProvider sdk client)))"
  by (simp add: selectWalletProvider_def js_bind_Inr)

text \<open>
  Claim C1. The key is resolved in the order environment, file, generator. A non-empty
  \<open>PRIVATE_KEY\<close> is the key whatever the file is, and the file is left alone. Without
  it, the key is the property \<open>privateKey\<close> of the parsed file. With neither, the
  generated key is returned and written to the file as \<open>{privateKey}\<close>; when the
  runtime's \<open>JSON.parse\<close> reads back what its \<open>JSON.stringify\<close> wrote, a second
  resolution on the new file returns the identical key, whatever the generator would
  return then.
\<close>

theorem key_resolution_precedence:
  "(PRIVATE_KEY env = Some k \<and> truthy k \<longrightarrow>
      resolvePrivateKey sdk env file = (file, Inr (Some (JStr k)))) \<and>
   (\<not> truthy_opt (PRIVATE_KEY env) \<and> JSON_parse sdk content = Inr (JObj props) \<longrightarrow>
      resolvePrivateKey sdk env (Some content) =
        (Some content, Inr (map_of props (ascii ''privateKey'')))) \<and>
   (\<not> truthy_opt (PRIVATE_KEY env) \<and>
    JSON_parse sdk (JSON_stringify sdk (key_object (generatePrivateKey sdk)))
      = Inr (key_object (generatePrivateKey sdk)) \<longrightarrow>
      resolvePrivateKey sdk env None =
        (Some (JSON_stringify sdk (key_object (generatePrivateKey sdk))),
         Inr (Some (JStr (generatePrivateKey sdk)))) \<and>
      resolvePrivateKey (sdk\<lparr>generatePrivateKey := g'\<rparr>) env (fst (resolvePrivateKey sdk env None)) =
        (fst (resolvePrivateKey sdk env None), Inr (Some (JStr (generatePrivateKey sdk)))))"
  by (simp add: resolvePrivateKey_def truthy_opt_def js_bind_def get_privateKey_def key_object_def
      Let_def)

theorem key_resolution_precedence_witness:
  "resolvePrivateKey sdk_ok env_with_key (Some (stub_stringify (key_object (ascii ''0xf11e''))))
     = (Some (stub_stringify (key_object (ascii ''0xf11e''))), Inr (Some (JStr (ascii ''0xabc'')))) \<and>
   resolvePrivateKey sdk_ok env_server (Some (stub_stringify (key_object (ascii ''0xf11e''))))
     = (Some (stub_stringify (key_object (ascii ''0xf11e''))), Inr (Some (JStr (ascii ''0xf11e'')))) \<and>
   resolvePrivateKey sdk_ok env_server None
     = (Some (stub_stringify (key_object (ascii ''0x5eed''))), Inr (Some (JStr (ascii ''0x5eed'')))) \<and>
   resolvePrivateKey (sdk_ok\<lparr>generatePrivateKey := ascii ''0x0dd''\<rparr>) env_server
       (fst (resolvePrivateKey sdk_ok env_server None))
     = (Some (stub_stringify (key_object (ascii ''0x5eed''))), Inr (Some (JStr (ascii ''0x5eed''))))"
proof -
  have k: "truthy (ascii ''0xabc'')" by (simp add: truthy_def ascii_not_empty)
  have rt: "stub_parse (stub_stringify (key_object (ascii ''0x5eed''))) = Inr (key_object (ascii ''0x5eed''))"
    by (simp add: stub_stringify_key stub_parse_key no_quote_5eed)
  have parsed: "stub_parse (stub_stringify (key_object (ascii ''0xf11e'')))
                = Inr (JObj [(ascii ''privateKey'', JStr (ascii ''0xf11e''))])"
    using stub_parse_key [OF no_quote_f11e, folded stub_stringify_key] by (simp add: key_object_def)
  note with_key = key_resolution_precedence [of env_with_key "ascii ''0xabc''" sdk_ok
      "Some (stub_stringify (key_object (ascii ''0xf11e'')))" "[]" "[]" "[]"]
  note without_key = key_resolution_precedence [of env_server "[]" sdk_ok None
      "stub_stringify (key_object (ascii ''0xf11e''))"
      "[(ascii ''privateKey'', JStr (ascii ''0xf11e''))]" "ascii ''0x0dd''"]
  have a: "resolvePrivateKey sdk_ok env_with_key (Some (stub_stringify (key_object (ascii ''0xf11e''))))
     = (Some (stub_stringify (key_object (ascii ''0xf11e''))), Inr (Some (JStr (ascii ''0xabc''))))"
    using with_key by (simp add: k env_with_key_simps)
  have b: "resolvePrivateKey sdk_ok env_server (Some (stub_stringify (key_object (ascii ''0xf11e''))))
     = (Some (stub_stringify (key_object (ascii ''0xf11e''))), Inr (Some (JStr (ascii ''0xf11e''))))"
    using without_key by (simp add: parsed env_server_simps sdk_ok_simps)
  have c: "resolvePrivateKey sdk_ok env_server None
     = (Some (stub_stringify (key_object (ascii ''0x5eed''))), Inr (Some (JStr (ascii ''0x5eed''))))"
    using without_key by (simp add: rt env_server_simps sdk_ok_simps)
  have d: "resolvePrivateKey (sdk_ok\<lparr>generatePrivateKey := ascii ''0x0dd''\<rparr>) env_server
       (fst (resolvePrivateKey sdk_ok env_server None))
     = (fst (resolvePrivateKey sdk_ok env_server None), Inr (Some (JStr (ascii ''0x5eed''))))"
    using without_key c by (simp add: rt env_server_simps sdk_ok_simps)
  show ?thesis using a b c d by simp
qed

subsection \<open>Failures\<close>

lemma prepare_error_shape:
  "snd (prepareAgentkitAndWalletProvider sdk env file) = Inl e' \<Longrightarrow> e' = initialization_error"
  by (cases "prepare_try sdk env file")
     (auto simp: prepareAgentkitAndWalletProvider_def split: sum.splits)

lemma wallet_provider_throws:
  "snd (selectWalletProvider sdk env file) = Inl e \<Longrightarrow> snd (prepare_try sdk env file) = Inl e"
  by (cases "selectWalletProvider sdk env file") (simp add: prepare_try_def js_bind_Inl)

lemma key_resolution_throws:
  "\<not> window_ethereum env \<Longrightarrow> snd (resolvePrivateKey sdk env file) = Inl e \<Longrightarrow>
     snd (selectWalletProvider sdk env file) = Inl e"
  by (cases "resolvePrivateKey sdk env file") (simp add: selectWalletProvider_def js_bind_Inl)

lemma action_provider_throws:
  "snd (selectWalletProvider sdk env file) = Inr w \<Longrightarrow> assembleActionProviders sdk env = Inl e \<Longrightarrow>
     snd (prepare_try sdk env file) = Inl e"
  by (cases "selectWalletProvider sdk env file") (simp add: prepare_try_def js_bind_Inl js_bind_Inr)

lemma agentkit_throws:
  "snd (selectWalletProvider sdk env file) = Inr w \<Longrightarrow> assembleActionProviders sdk env = Inr ps \<Longrightarrow>
   AgentKit_from sdk w ps = Inl e \<Longrightarrow> snd (prepare_try sdk env file) = Inl e"
  by (cases "selectWalletProvider sdk env file") (simp add: prepare_try_def js_bind_Inl js_bind_Inr)

text \<open>
  Claim C3. If a step of \<open>prepareAgentkitAndWalletProvider\<close> throws an error \<open>e\<close> (the
  construction of the wallet provider, the resolution of the key, \<open>AgentKit.from\<close>, or
  anything else in the body of the \<open>try\<close>), the function throws the one error with the
  message \<open>Failed to initialize agent\<close>, which has no cause and does not depend on \<open>e\<close>.
\<close>

theorem initialization_failure_generic:
  "snd (selectWalletProvider sdk env file) = Inl e \<or>
   (\<not> window_ethereum env \<and> snd (resolvePrivateKey sdk env file) = Inl e) \<or>
   (snd (selectWalletProvider sdk env file) = Inr w \<and> assembleActionProviders sdk env = Inr ps \<and>
    AgentKit_from sdk w ps = Inl e) \<or>
   snd (prepare_try sdk env file) = Inl e \<Longrightarrow>
     snd (prepareAgentkitAndWalletProvider sdk env file) = Inl initialization_error \<and>
     err_message initialization_error = ascii ''Failed to initialize agent'' \<and>
     err_cause initialization_error = None"
proof -
  assume steps: "snd (selectWalletProvider sdk env file) = Inl e \<or>
   (\<not> window_ethereum env \<and> snd (resolvePrivateKey sdk env file) = Inl e) \<or>
   (snd (selectWalletProvider sdk env file) = Inr w \<and> assembleActionProviders sdk env = Inr ps \<and>
    AgentKit_from sdk w ps = Inl e) \<or>
   snd (prepare_try sdk env file) = Inl e"
  have body: "snd (prepare_try sdk env file) = Inl e"
    using steps
  proof (elim disjE conjE)
    assume "snd (selectWalletProvider sdk env file) = Inl e"
    then show ?thesis by (rule wallet_provider_throws)
  next
    assume "\<not> window_ethereum env" and "snd (resolvePrivateKey sdk env file) = Inl e"
    then have "snd (selectWalletProvider sdk env file) = Inl e" by (rule key_resolution_throws)
    then show ?thesis by (rule wallet_provider_throws)
  next
    assume "snd (selectWalletProvider sdk env file) = Inr w"
      and "assembleActionProviders sdk env = Inr ps" and "AgentKit_from sdk w ps = Inl e"
    then show ?thesis by (rule agentkit_throws)
  next
    assume "snd (prepare_try sdk env file) = Inl e"
    then show ?thesis .
  qed
  have "snd (prepareAgentkitAndWalletProvider sdk env file) = Inl initialization_error"
    using body by (cases "prepare_try sdk env file") (simp add: prepareAgentkitAndWalletProvider_def)
  then show ?thesis by (simp add: initialization_error_def)
qed

theorem initialization_failure_generic_witness:
  "AgentKit_from sdk_agentkit_fails
     \<lparr>config_account = Some (Some (JStr (ascii ''0x5eed''))), config_chain = flowTestnet,
      config_transport = Http\<rparr>
     [Library (ascii ''wallet''), Flow createFlowActionProvider, Library (ascii ''erc20'')]
     = Inl network_error \<and>
   snd (prepareAgentkitAndWalletProvider sdk_agentkit_fails env_server None) = Inl initialization_error \<and>
   err_cause initialization_error = None \<and>
   stub_parse (ascii ''not json'') = Inl syntax_error \<and>
   snd (prepareAgentkitAndWalletProvider sdk_ok env_server (Some (ascii ''not json'')))
     = Inl initialization_error"
  using
    initialization_failure_generic [of sdk_agentkit_fails env_server None network_error
      "\<lparr>config_account = Some (Some (JStr (ascii ''0x5eed''))), config_chain = flowTestnet,
        config_transport = Http\<rparr>"
      "[Library (ascii ''wallet''), Flow createFlowActionProvider, Library (ascii ''erc20'')]"]
    initialization_failure_generic [of sdk_ok env_server "Some (ascii ''not json'')" syntax_error]
  by (simp add: agentkit_fails_select agentkit_fails_assemble agentkit_fails_from
      resolvePrivateKey_def env_server_simps sdk_ok_simps stub_parse_not_json js_bind_Inl)

lemma errors_differ: "initialization_error \<noteq> syntax_error"
  by (simp add: initialization_error_def syntax_error_def ascii_def)

text \<open>
  Claim C7, as the code has it. When no browser wallet and no environment key is
  there and the key file exists with content that \<open>JSON.parse\<close> rejects, the parse
  error leaves the key resolution, is caught by the handler of the function, and the
  function throws the error \<open>Failed to initialize agent\<close> in its place; the file is
  left as it is.
\<close>

theorem malformed_key_file_generic:
  "\<not> window_ethereum env \<Longrightarrow> \<not> truthy_opt (PRIVATE_KEY env) \<Longrightarrow>
   JSON_parse sdk content = Inl e \<Longrightarrow>
     resolvePrivateKey sdk env (Some content) = (Some content, Inl e) \<and>
     prepareAgentkitAndWalletProvider sdk env (Some content) = (Some content, Inl initialization_error)"
  by (simp add: prepareAgentkitAndWalletProvider_def prepare_try_def selectWalletProvider_def
      resolvePrivateKey_def js_bind_def Let_def)

theorem malformed_key_file_generic_witness:
  "\<not> window_ethereum env_server \<and> \<not> truthy_opt (PRIVATE_KEY env_server) \<and>
   JSON_parse sdk_ok (ascii ''not json'') = Inl syntax_error \<and>
   prepareAgentkitAndWalletProvider sdk_ok env_server (Some (ascii ''not json''))
     = (Some (ascii ''not json''), Inl initialization_error)"
proof -
  have h1: "\<not> window_ethereum env_server" by (rule env_server_simps)
  have h2: "\<not> truthy_opt (PRIVATE_KEY env_server)" by (rule env_server_simps)
  have h3: "JSON_parse sdk_ok (ascii ''not json'') = Inl syntax_error"
    by (simp add: sdk_ok_simps stub_parse_not_json)
  show ?thesis using h1 h2 h3 malformed_key_file_generic [OF h1 h2 h3] by simp
qed

text \<open>
  Claim C7 as stated fails: on a key file that is not JSON the function does not throw
  the parse error, it throws the initialization error, which is another error.
\<close>

theorem malformed_key_file_counterexample:
  "JSON_parse sdk_ok (ascii ''not json'') = Inl syntax_error \<and>
   prepareAgentkitAndWalletProvider sdk_ok env_server (Some (ascii ''not json''))
     = (Some (ascii ''not json''), Inl initialization_error) \<and>
   initialization_error \<noteq> syntax_error"
  by (simp add: prepareAgentkitAndWalletProvider_def prepare_try_def selectWalletProvider_def
      resolvePrivateKey_def js_bind_def Let_def env_server_simps sdk_ok_simps stub_parse_not_json
      errors_differ)

end
